theory Spec2Isabelle
  imports Complex_Main "HOL-Library.AList"
begin

section \<open>The PSVM estimator (h2o/estimators/psvm.py)\<close>

subsection \<open>Python values, declared types and errors\<close>

text \<open>
  The values a caller can hand to the estimator. \<open>PyFrame\<close> is an \<open>H2OFrame\<close> (a
  reference to a data table of the server, named by its key); \<open>PyTable\<close> is a local
  tabular object that is not an \<open>H2OFrame\<close>.
\<close>

datatype pyval =
    PyNone
  | PyStr string
  | PyBool bool
  | PyInt int
  | PyFloat real
  | PyList "pyval list"
  | PyFrame string
  | PyTable string

text \<open>
  The second argument of the \<open>assert_is_type(x, None, T)\<close> calls of the setters:
  \<open>str\<close>, \<open>[str]\<close>, \<open>bool\<close>, \<open>numeric\<close>, \<open>int\<close> and \<open>Enum(...)\<close>.
\<close>

datatype ftype = TStr | TStrList | TBool | TNumeric | TInt | TEnum "string list"

text \<open>
  The exceptions of the two modules. \<open>UnknownParameter pname pvalue\<close> is the
  \<open>H2OValueError("Unknown parameter %s = %r" % (pname, pvalue))\<close> of the constructor;
  \<open>TypeValidationError\<close> carries the field, the expected type and the offending value;
  \<open>FrameValueError\<close> is the value error of the table-reference validation and names
  the field; \<open>NoSuchProperty\<close> marks an assignment to a name that is neither
  \<open>model_id\<close> nor a property of the class, which the constructor never performs.
\<close>

datatype error =
    UnknownParameter string pyval
  | TypeValidationError string ftype pyval
  | FrameValueError string
  | NoSuchProperty string

subsection \<open>Validation helpers\<close>

text \<open>
  Modelled from the spec: \<open>assert_is_type\<close>, \<open>Enum\<close> and \<open>numeric\<close> of
  \<open>h2o.utils.typechecks\<close> are imported by psvm.py and are not among the sources.
  The spec: a setter "validates value against its declared type (or accepts an
  absent/empty sentinel to mean use remote default) and stores it; on type mismatch,
  fails with a type-validation error identifying the field, the expected type, and the
  offending value"; the kernel-type field has "enumerated-value membership" and
  "currently admits exactly one value". The semantic types of the spec are string,
  boolean, integer, number (an integer or a floating-point number, the \<open>numeric\<close> of
  the source), enumerated string and list of strings.
\<close>

fun is_str :: "pyval \<Rightarrow> bool" where
  "is_str (PyStr s) = True"
| "is_str v = False"

fun check_type :: "pyval \<Rightarrow> ftype \<Rightarrow> bool" where
  "check_type (PyStr s) TStr = True"
| "check_type (PyList xs) TStrList = list_all is_str xs"
| "check_type (PyBool b) TBool = True"
| "check_type (PyInt i) TNumeric = True"
| "check_type (PyFloat x) TNumeric = True"
| "check_type (PyInt i) TInt = True"
| "check_type (PyStr s) (TEnum consts) = (s \<in> set consts)"
| "check_type v T = False"

text \<open>
  \<open>assert_is_type(var, None, T)\<close>: passes on \<open>None\<close> and on a value of type \<open>T\<close>. The
  field name is an argument here; the error names the field.
\<close>

definition assert_is_type :: "string \<Rightarrow> pyval \<Rightarrow> ftype \<Rightarrow> error + unit" where
  "assert_is_type name var T =
     (if var = PyNone \<or> check_type var T then Inr ()
      else Inl (TypeValidationError name T var))"

text \<open>
  Modelled from the spec: \<open>H2OFrame._validate\<close> of \<open>h2o.frame\<close> is not among the
  sources. The spec: the two frame fields "validate that value is a well-formed
  reference to an existing data table (or convert a compatible local tabular object
  into one), failing otherwise with a value error naming the field"; the absent
  sentinel is accepted as for every field. The converted table keeps its name.
\<close>

fun H2OFrame_validate :: "pyval \<Rightarrow> string \<Rightarrow> error + pyval" where
  "H2OFrame_validate PyNone name = Inr PyNone"
| "H2OFrame_validate (PyFrame f) name = Inr (PyFrame f)"
| "H2OFrame_validate (PyTable t) name = Inr (PyFrame t)"
| "H2OFrame_validate v name = Inl (FrameValueError name)"

subsection \<open>The object and its properties\<close>

text \<open>The two attributes the class assigns: \<open>self._id\<close> and \<open>self._parms\<close>.\<close>

record estimator =
  ident :: "pyval option"
  parms :: "string \<rightharpoonup> pyval"

datatype validator = TypeCheck ftype | FrameCheck

text \<open>
  One row per property of the class, in the order of the source: the name of the
  property, which is also the key its getter and setter use in \<open>_parms\<close>, and the
  validation of its setter (the type given to \<open>assert_is_type\<close>, or
  \<open>H2OFrame._validate\<close>).
\<close>

definition property_table :: "(string \<times> validator) list" where
  "property_table =
    [(''training_frame'', FrameCheck),
     (''validation_frame'', FrameCheck),
     (''response_column'', TypeCheck TStr),
     (''ignored_columns'', TypeCheck TStrList),
     (''ignore_const_cols'', TypeCheck TBool),
     (''hyper_param'', TypeCheck TNumeric),
     (''kernel_type'', TypeCheck (TEnum [''gaussian''])),
     (''gamma'', TypeCheck TNumeric),
     (''rank_ratio'', TypeCheck TNumeric),
     (''positive_weight'', TypeCheck TNumeric),
     (''negative_weight'', TypeCheck TNumeric),
     (''disable_training_metrics'', TypeCheck TBool),
     (''sv_threshold'', TypeCheck TNumeric),
     (''fact_threshold'', TypeCheck TNumeric),
     (''feasible_threshold'', TypeCheck TNumeric),
     (''surrogate_gap_threshold'', TypeCheck TNumeric),
     (''mu_factor'', TypeCheck TNumeric),
     (''max_iterations'', TypeCheck TInt),
     (''seed'', TypeCheck TInt)]"


text \<open>
  Modelled from the spec: the setter of \<open>model_id\<close> is inherited from the base class
  \<open>H2OEstimator\<close>, which is not among the sources. The spec: \<open>model_id\<close> is "a
  free-form string the caller may set"; a setter "validates value against its
  declared type (or accepts an absent/empty sentinel to mean use remote default) and
  stores it"; the value is stored "both as the object's identity and in the mapping",
  as the constructor does for this name.
\<close>

definition model_id_setter :: "estimator \<Rightarrow> pyval \<Rightarrow> error + estimator" where
  "model_id_setter est v =
     (case assert_is_type ''model_id'' v TStr of
        Inl e \<Rightarrow> Inl e
      | Inr u \<Rightarrow> Inr (est\<lparr>ident := Some v, parms := (parms est)(''model_id'' \<mapsto> v)\<rparr>))"

text \<open>
  The assignment \<open>setattr(self, name, value)\<close>: for \<open>model_id\<close> the inherited setter,
  for a property of the class its setter, which validates and then stores under the
  property's name. A failed validation raises before the store.
\<close>

definition property_set :: "estimator \<Rightarrow> string \<Rightarrow> pyval \<Rightarrow> error + estimator" where
  "property_set est name v =
     (if name = ''model_id'' then model_id_setter est v
      else
        case map_of property_table name of
          Some (TypeCheck T) \<Rightarrow>
            (case assert_is_type name v T of
               Inl e \<Rightarrow> Inl e
             | Inr u \<Rightarrow> Inr (est\<lparr>parms := (parms est)(name \<mapsto> v)\<rparr>))
        | Some FrameCheck \<Rightarrow>
            (case H2OFrame_validate v name of
               Inl e \<Rightarrow> Inl e
             | Inr w \<Rightarrow> Inr (est\<lparr>parms := (parms est)(name \<mapsto> w)\<rparr>))
        | None \<Rightarrow> Inl (NoSuchProperty name))"

subsection \<open>The constructor\<close>

definition names_list :: "string list" where
  "names_list =
    [''model_id'', ''training_frame'', ''validation_frame'', ''response_column'',
     ''ignored_columns'', ''ignore_const_cols'', ''hyper_param'', ''kernel_type'',
     ''gamma'', ''rank_ratio'', ''positive_weight'', ''negative_weight'',
     ''disable_training_metrics'', ''sv_threshold'', ''fact_threshold'',
     ''feasible_threshold'', ''surrogate_gap_threshold'', ''mu_factor'',
     ''max_iterations'', ''seed'']"

text \<open>
  \<open>kwargs\<close> is a dictionary: an association list with distinct keys, in iteration
  order. \<open>if "Lambda" in kwargs: kwargs["lambda_"] = kwargs.pop("Lambda")\<close> removes
  the key and assigns the value to \<open>lambda_\<close>, in place when that key exists and at
  the end otherwise.
\<close>

definition rename_Lambda :: "(string \<times> pyval) list \<Rightarrow> (string \<times> pyval) list" where
  "rename_Lambda kwargs =
     (case map_of kwargs ''Lambda'' of
        None \<Rightarrow> kwargs
      | Some v \<Rightarrow> AList.update ''lambda_'' v (AList.delete ''Lambda'' kwargs))"

text \<open>The body of the loop, for one pair.\<close>

definition apply_pair :: "estimator \<Rightarrow> string \<times> pyval \<Rightarrow> error + estimator" where
  "apply_pair est p =
     (case p of (pname, pvalue) \<Rightarrow>
        if pname = ''model_id'' then
          Inr (est\<lparr>ident := Some pvalue, parms := (parms est)(''model_id'' \<mapsto> pvalue)\<rparr>)
        else if pname \<in> set names_list then property_set est pname pvalue
        else Inl (UnknownParameter pname pvalue))"

text \<open>
  The loop over \<open>kwargs.items()\<close>. An exception leaves the loop; the object is then
  in the state it had when the exception was raised, which is returned with the error.
\<close>

fun init_loop :: "estimator \<Rightarrow> (string \<times> pyval) list \<Rightarrow> estimator \<times> error option" where
  "init_loop est [] = (est, None)"
| "init_loop est (p # ps) =
     (case apply_pair est p of
        Inl e \<Rightarrow> (est, Some e)
      | Inr est' \<Rightarrow> init_loop est' ps)"

text \<open>The object after \<open>self._parms = {}\<close>.\<close>

definition new_estimator :: estimator where
  "new_estimator = \<lparr>ident = None, parms = Map.empty\<rparr>"

definition H2OSupportVectorMachineEstimator_init ::
  "(string \<times> pyval) list \<Rightarrow> estimator \<times> error option" where
  "H2OSupportVectorMachineEstimator_init kwargs =
     init_loop new_estimator (rename_Lambda kwargs)"

section \<open>Permutation variable importance (h2o/model/permutation_varimp.py)\<close>

subsection \<open>Objects, classes and the remote collaborators\<close>

text \<open>
  A class is \<open>H2OFrame\<close> itself, a class declared with a base class, or a class
  unrelated to \<open>H2OFrame\<close>. \<open>type(x)\<close> is the class an object was created from;
  \<open>isinstance\<close> follows the base classes.
\<close>

datatype pyclass = H2OFrame_class | Subclass string pyclass | OtherClass string

fun issubclass :: "pyclass \<Rightarrow> pyclass \<Rightarrow> bool" where
  "issubclass (Subclass n b) c = (Subclass n b = c \<or> issubclass b c)"
| "issubclass t c = (t = c)"

record pyobject =
  obj_class :: pyclass
  obj_name :: string

definition isinstance :: "pyobject \<Rightarrow> pyclass \<Rightarrow> bool" where
  "isinstance x c = issubclass (obj_class x) c"

text \<open>\<open>ExprNode(op, model, frame, metric)\<close>, the request handed to the evaluator.\<close>

datatype exprnode = ExprNode string pyobject pyobject string

text \<open>
  The calls the function makes to its collaborators, in order: \<open>Expr e\<close> is
  \<open>H2OFrame._expr(e)\<close>, the submission of the request \<open>e\<close> to the expression
  evaluator; \<open>AsList e\<close> is \<open>h2o.as_list\<close> on the frame obtained for \<open>e\<close>.
\<close>

datatype remote_call = Expr exprnode | AsList exprnode

fun is_submission :: "remote_call \<Rightarrow> bool" where
  "is_submission (Expr e) = True"
| "is_submission (AsList e) = False"

definition submissions :: "remote_call list \<Rightarrow> nat" where
  "submissions trace = length (filter is_submission trace)"

datatype varimp_result = LazyFrame exprnode | PandasDataFrame exprnode

datatype builtin_error = ValueError string | KeyError

text \<open>
  \<open>permutation_varimp\<close>. The trace of collaborator calls is threaded through: the
  function gets the calls made so far and returns them with its own appended.
  \<open>pandas_available\<close> is what \<open>can_use_pandas()\<close> returns, which depends on the
  installation; it is called only when \<open>use_pandas\<close> holds.
\<close>

definition permutation_varimp ::
  "bool \<Rightarrow> remote_call list \<Rightarrow> pyobject \<Rightarrow> pyobject \<Rightarrow> bool \<Rightarrow> string \<Rightarrow>
     (builtin_error + varimp_result) \<times> remote_call list" where
  "permutation_varimp pandas_available trace model frame use_pandas metric =
     (if obj_class frame \<noteq> H2OFrame_class then
        (Inl (ValueError ''Frame is not H2OFrame''), trace)
      else
        let e = ExprNode ''PermutationVarImp'' model frame metric;
            trace1 = trace @ [Expr e]
        in if use_pandas \<and> pandas_available then
             (Inr (PandasDataFrame e), trace1 @ [AsList e])
           else (Inr (LazyFrame e), trace1))"

subsection \<open>The importance table and the chart backend\<close>

text \<open>
  The table handed to the plot: its column names and its rows, every cell a string or
  a number. \<open>loc df i\<close> is \<open>df.loc[i]\<close> on the default index, \<open>series_get\<close> is the
  lookup \<open>row[col]\<close> of a cell by column name (for distinct column names).
\<close>

datatype cell = Str string | Num real

record dataframe =
  columns :: "string list"
  rows :: "cell list list"

definition loc :: "dataframe \<Rightarrow> nat \<Rightarrow> builtin_error + cell list" where
  "loc df i = (if i < length (rows df) then Inr (rows df ! i) else Inl KeyError)"

definition series_get :: "string list \<Rightarrow> cell list \<Rightarrow> string \<Rightarrow> builtin_error + cell" where
  "series_get cols row col =
     (case map_of (zip cols row) col of None \<Rightarrow> Inl KeyError | Some c \<Rightarrow> Inr c)"

text \<open>The calls made on \<open>plt\<close> and \<open>ax\<close>, with the arguments that vary.\<close>

datatype draw_call =
    Subplots
  | Barh "int list" "cell list"
  | SpineSetVisible string bool
  | SpineSetColor string string
  | YaxisSetTicksPosition string
  | XaxisSetTicksPosition string
  | Yticks "int list" "string list"
  | Ylim int int
  | Title string
  | Show

text \<open>The first loop: \<open>importance.loc[2][col]\<close> of every column not named "importance".\<close>

fun importance_values :: "dataframe \<Rightarrow> string list \<Rightarrow> builtin_error + cell list" where
  "importance_values importance [] = Inr []"
| "importance_values importance (col # cols) =
     (if col = ''importance'' then importance_values importance cols
      else
        case loc importance 2 of
          Inl e \<Rightarrow> Inl e
        | Inr row \<Rightarrow>
            (case series_get (columns importance) row col of
               Inl e \<Rightarrow> Inl e
             | Inr v \<Rightarrow>
                 (case importance_values importance cols of
                    Inl e \<Rightarrow> Inl e
                  | Inr vs \<Rightarrow> Inr (v # vs))))"

text \<open>
  \<open>plot_permutation_var_imp\<close>. \<open>plt\<close> tells whether \<open>_get_matplotlib_pyplot(server)\<close>
  returned a backend. The result is the list of calls made on the backend and the
  exception that ended the function, if any: \<open>min\<close> of an empty sequence raises
  \<open>ValueError\<close> after the bars and the ticks have been drawn.
\<close>

definition plot_permutation_var_imp ::
  "bool \<Rightarrow> dataframe \<Rightarrow> string \<Rightarrow> string \<Rightarrow> bool \<Rightarrow> draw_call list \<times> builtin_error option" where
  "plot_permutation_var_imp plt importance algo_name metric server =
     (case importance_values importance (columns importance) of
        Inl e \<Rightarrow> ([], Some e)
      | Inr importance_val \<Rightarrow>
          let pos = rev (map int [0..<length importance_val]);
              num_of_features = min (length importance_val) 10
          in if \<not> plt then ([], None)
             else
               let ps = take num_of_features pos;
                   drawn =
                     [Subplots,
                      Barh ps (take num_of_features importance_val),
                      SpineSetVisible ''right'' False,
                      SpineSetVisible ''top'' False,
                      SpineSetColor ''bottom'' ''#7B7B7B'',
                      SpineSetColor ''left'' ''#7B7B7B'',
                      YaxisSetTicksPosition ''left'',
                      XaxisSetTicksPosition ''bottom'',
                      Yticks ps (take num_of_features (drop 1 (columns importance)))]
               in if ps = [] then (drawn, Some (ValueError ''min() arg is an empty sequence''))
                  else
                    (drawn @
                     [Ylim (Min (set ps) - 1) (Max (set ps) + 1),
                      Title (''Permutation Variable Importance: '' @ algo_name @ '' ('' @ metric @ '')'')] @
                     (if server then [] else [Show]),
                     None))"

text \<open>The bars of a chart: each vertical position with the value drawn there.\<close>

fun bars_of_call :: "draw_call \<Rightarrow> (int \<times> cell) list" where
  "bars_of_call (Barh ps vs) = zip ps vs"
| "bars_of_call c = []"

definition bars_of :: "draw_call list \<Rightarrow> (int \<times> cell) list" where
  "bars_of calls = concat (map bars_of_call calls)"

fun tick_labels_of_call :: "draw_call \<Rightarrow> (int \<times> string) list" where
  "tick_labels_of_call (Yticks ps ls) = zip ps ls"
| "tick_labels_of_call c = []"

definition tick_labels_of :: "draw_call list \<Rightarrow> (int \<times> string) list" where
  "tick_labels_of calls = concat (map tick_labels_of_call calls)"

fun cell_le :: "cell \<Rightarrow> cell \<Rightarrow> bool" where
  "cell_le (Num a) (Num b) = (a \<le> b)"
| "cell_le v w = False"

text \<open>
  The bar drawn highest in a chart: the one at the greatest position (the first
  listed, should two bars share it).
\<close>

fun top_bar :: "(int \<times> cell) list \<Rightarrow> (int \<times> cell) option" where
  "top_bar [] = None"
| "top_bar (b # bs) =
     (case top_bar bs of
        None \<Rightarrow> Some b
      | Some t \<Rightarrow> if fst t \<le> fst b then Some b else Some t)"

text \<open>The largest bar is at the top: no bar's value exceeds the value of the top bar.\<close>

definition largest_at_top :: "(int \<times> cell) list \<Rightarrow> bool" where
  "largest_at_top bars =
     (case top_bar bars of
        None \<Rightarrow> True
      | Some t \<Rightarrow> list_all (\<lambda>b. cell_le (snd b) (snd t)) bars)"

fun is_label :: "cell \<Rightarrow> bool" where
  "is_label (Str s) = True"
| "is_label (Num x) = False"

fun is_number :: "cell \<Rightarrow> bool" where
  "is_number (Num x) = True"
| "is_number (Str s) = False"

text \<open>
  The shape of an importance table: the first column is the label column, named
  "importance", and holds strings; the column names are distinct; every row has a
  cell for every column; there is a row at index 2, and its cells after the first are
  numbers.
\<close>

definition importance_table_ok :: "dataframe \<Rightarrow> bool" where
  "importance_table_ok df =
     (columns df \<noteq> [] \<and> hd (columns df) = ''importance'' \<and> distinct (columns df) \<and>
      list_all (\<lambda>r. length r = length (columns df)) (rows df) \<and>
      list_all (\<lambda>r. is_label (hd r)) (rows df) \<and>
      2 < length (rows df) \<and>
      list_all is_number (tl (rows df ! 2)))"

section \<open>Notions used to state the properties\<close>



text \<open>
  What the constructor stores for an accepted pair: the value itself, or what
  \<open>H2OFrame._validate\<close> returns for it when the property is a frame property.
\<close>

definition stored_value :: "string \<Rightarrow> pyval \<Rightarrow> pyval" where
  "stored_value k v =
     (if map_of property_table k = Some FrameCheck
      then (case H2OFrame_validate v k of Inr w \<Rightarrow> w | Inl e \<Rightarrow> v)
      else v)"

text \<open>A pair passes the loop body: on a fresh object the body raises nothing.\<close>

definition pair_accepted :: "string \<times> pyval \<Rightarrow> bool" where
  "pair_accepted p = (case apply_pair new_estimator p of Inr est \<Rightarrow> True | Inl e \<Rightarrow> False)"

text \<open>
  The importance table of the spec's example: the label column and twelve feature
  columns, the row at index 2 starting 5, 3, 9.
\<close>

definition twelve_features :: dataframe where
  "twelve_features =
     \<lparr>columns = [''importance'', ''f1'', ''f2'', ''f3'', ''f4'', ''f5'', ''f6'', ''f7'', ''f8'',
                  ''f9'', ''f10'', ''f11'', ''f12''],
      rows = [[Str ''Relative Importance'', Num 50, Num 30, Num 90, Num 80, Num 70, Num 60,
               Num 40, Num 20, Num 10, Num 10, Num 10, Num 10],
              [Str ''Scaled Importance'', Num 0.5, Num 0.3, Num 0.9, Num 0.8, Num 0.7, Num 0.6,
               Num 0.4, Num 0.2, Num 0.1, Num 0.1, Num 0.1, Num 0.1],
              [Str ''Percentage'', Num 5, Num 3, Num 9, Num 8, Num 7, Num 6,
               Num 4, Num 2, Num 1, Num 1, Num 1, Num 1]]\<rparr>"

section \<open>Properties of the estimator\<close>

subsection \<open>Auxiliary facts\<close>



text \<open>
  Whether the loop body accepts a pair does not depend on the object; when it does,
  the body stores the pair under its own name.
\<close>

lemma apply_pair_cases:
  "apply_pair est (k, v) =
     (if pair_accepted (k, v)
      then Inr (est\<lparr>ident := (if k = ''model_id'' then Some v else ident est),
                     parms := (parms est)(k \<mapsto> stored_value k v)\<rparr>)
      else apply_pair new_estimator (k, v))"
proof (cases "k = ''model_id''")
  case True
  then show ?thesis
    by (simp add: apply_pair_def pair_accepted_def stored_value_def property_table_def)
next
  case False
  show ?thesis
  proof (cases "map_of property_table k")
    case None
    with False show ?thesis
      by (simp add: apply_pair_def pair_accepted_def property_set_def)
  next
    case (Some chk)
    show ?thesis
    proof (cases chk)
      case (TypeCheck T)
      with Some False show ?thesis
        by (simp add: apply_pair_def pair_accepted_def property_set_def stored_value_def
            assert_is_type_def)
    next
      case FrameCheck
      with Some False show ?thesis
        by (cases "H2OFrame_validate v k")
          (simp_all add: apply_pair_def pair_accepted_def property_set_def stored_value_def)
    qed
  qed
qed

lemma rejected_is_error:
  "\<not> pair_accepted p \<Longrightarrow> \<exists>e. apply_pair new_estimator p = Inl e"
  by (cases "apply_pair new_estimator p") (simp_all add: pair_accepted_def)

lemma init_loop_prefix:
  assumes "list_all pair_accepted ps" and "distinct (map fst ps)"
  shows "\<exists>est'. init_loop est (ps @ qs) = init_loop est' qs \<and>
           (\<forall>k. parms est' k =
              (case map_of ps k of None \<Rightarrow> parms est k | Some v \<Rightarrow> Some (stored_value k v)))"
  using assms
proof (induction ps arbitrary: est)
  case Nil
  have "init_loop est ([] @ qs) = init_loop est qs \<and>
        (\<forall>k. parms est k =
           (case map_of [] k of None \<Rightarrow> parms est k | Some v \<Rightarrow> Some (stored_value k v)))"
    by simp
  then show ?case by blast
next
  case (Cons p ps)
  obtain k v where p: "p = (k, v)" by (cases p)
  let ?est1 = "est\<lparr>ident := (if k = ''model_id'' then Some v else ident est),
                     parms := (parms est)(k \<mapsto> stored_value k v)\<rparr>"
  from Cons.prems p have acc: "pair_accepted (k, v)" and rest: "list_all pair_accepted ps"
    and d: "distinct (map fst ps)" and knot: "k \<notin> fst ` set ps" by auto
  have step: "apply_pair est (k, v) = Inr ?est1"
    using acc apply_pair_cases[of est k v] by simp
  from Cons.IH[OF rest d, of ?est1] obtain est' where
    e: "init_loop ?est1 (ps @ qs) = init_loop est' qs" and
    m: "\<forall>k'. parms est' k' =
          (case map_of ps k' of None \<Rightarrow> parms ?est1 k' | Some v' \<Rightarrow> Some (stored_value k' v'))"
    by blast
  have "init_loop est ((p # ps) @ qs) = init_loop est' qs"
    using step e p by simp
  moreover have "\<forall>k'. parms est' k' =
      (case map_of (p # ps) k' of None \<Rightarrow> parms est k' | Some v' \<Rightarrow> Some (stored_value k' v'))"
  proof
    fix k'
    have kn: "map_of ps k = None" using knot by (simp add: map_of_eq_None_iff)
    show "parms est' k' =
      (case map_of (p # ps) k' of None \<Rightarrow> parms est k' | Some v' \<Rightarrow> Some (stored_value k' v'))"
      using m[rule_format, of k'] p kn by (cases "k' = k") (auto split: option.splits)
  qed
  ultimately show ?case by blast
qed

subsection \<open>Setting and getting a property\<close>



subsection \<open>Construction\<close>




text \<open>
  Claim C5. Constructing the estimator with \<open>Lambda = 5\<close> has the same outcome as
  constructing it with \<open>lambda_ = 5\<close>: the same error and the same object state. Both
  raise the unknown-parameter error for \<open>lambda_\<close> on the object as created.
\<close>

theorem Lambda_alias_transparent:
  "H2OSupportVectorMachineEstimator_init [(''Lambda'', PyInt 5)] =
     H2OSupportVectorMachineEstimator_init [(''lambda_'', PyInt 5)] \<and>
   H2OSupportVectorMachineEstimator_init [(''lambda_'', PyInt 5)] =
     (new_estimator, Some (UnknownParameter ''lambda_'' (PyInt 5)))"
  by (simp add: H2OSupportVectorMachineEstimator_init_def rename_Lambda_def apply_pair_def
      names_list_def)

text \<open>
  Claim C8. The pairs given at construction are validated and applied one at a time
  in iteration order: when the pairs before some pair are all accepted and that pair
  is rejected, the construction raises an error, and the parameter mapping of the
  object holds exactly the pairs before it, each one stored (no rollback).
\<close>

theorem batch_failure_keeps_prefix:
  assumes kw: "rename_Lambda kwargs = ps @ (k, v) # rest"
      and d: "distinct (map fst ps)"
      and ok: "list_all pair_accepted ps"
      and bad: "\<not> pair_accepted (k, v)"
  shows "\<exists>est e. H2OSupportVectorMachineEstimator_init kwargs = (est, Some e) \<and>
           dom (parms est) = fst ` set ps \<and>
           list_all (\<lambda>(k', v'). parms est k' = Some (stored_value k' v')) ps"
proof -
  from init_loop_prefix[OF ok d, of new_estimator "(k, v) # rest"] obtain est where
    e: "init_loop new_estimator (ps @ (k, v) # rest) = init_loop est ((k, v) # rest)" and
    m: "\<forall>k'. parms est k' =
          (case map_of ps k' of
             None \<Rightarrow> parms new_estimator k'
           | Some v' \<Rightarrow> Some (stored_value k' v'))"
    by blast
  from rejected_is_error[OF bad] obtain er where er: "apply_pair new_estimator (k, v) = Inl er"
    by blast
  have "apply_pair est (k, v) = Inl er" using bad er apply_pair_cases[of est k v] by simp
  then have r: "H2OSupportVectorMachineEstimator_init kwargs = (est, Some er)"
    using e kw by (simp add: H2OSupportVectorMachineEstimator_init_def)
  have dm: "dom (parms est) = fst ` set ps"
  proof -
    have "\<And>k'. (parms est k' \<noteq> None) = (map_of ps k' \<noteq> None)"
      using m by (simp add: new_estimator_def split: option.splits)
    then have "dom (parms est) = dom (map_of ps)" by (auto simp: dom_def)
    then show ?thesis by (simp add: dom_map_of_conv_image_fst)
  qed
  have st: "list_all (\<lambda>(k', v'). parms est k' = Some (stored_value k' v')) ps"
  proof -
    have "\<And>k' v'. (k', v') \<in> set ps \<Longrightarrow> parms est k' = Some (stored_value k' v')"
    proof -
      fix k' v' assume "(k', v') \<in> set ps"
      with d have "map_of ps k' = Some v'" by simp
      with m show "parms est k' = Some (stored_value k' v')" by simp
    qed
    then show ?thesis by (auto simp: list_all_iff)
  qed
  from r dm st show ?thesis by blast
qed

theorem batch_failure_keeps_prefix_witness:
  "rename_Lambda
     [(''gamma'', PyFloat 0.5), (''kernel_type'', PyStr ''linear''), (''seed'', PyInt 1)] =
     [(''gamma'', PyFloat 0.5)] @ (''kernel_type'', PyStr ''linear'') # [(''seed'', PyInt 1)] \<and>
   distinct (map fst [(''gamma'', PyFloat 0.5)]) \<and>
   list_all pair_accepted [(''gamma'', PyFloat 0.5)] \<and>
   \<not> pair_accepted (''kernel_type'', PyStr ''linear'') \<and>
   (\<exists>est e. H2OSupportVectorMachineEstimator_init
        [(''gamma'', PyFloat 0.5), (''kernel_type'', PyStr ''linear''), (''seed'', PyInt 1)] =
        (est, Some e) \<and>
      dom (parms est) = {''gamma''} \<and> parms est ''gamma'' = Some (PyFloat 0.5))"
proof -
  have a: "rename_Lambda
     [(''gamma'', PyFloat 0.5), (''kernel_type'', PyStr ''linear''), (''seed'', PyInt 1)] =
     [(''gamma'', PyFloat 0.5)] @ (''kernel_type'', PyStr ''linear'') # [(''seed'', PyInt 1)]"
    by (simp add: rename_Lambda_def)
  have b: "distinct (map fst [(''gamma'', PyFloat 0.5)])" by simp
  have c: "list_all pair_accepted [(''gamma'', PyFloat 0.5)]"
    by (simp add: pair_accepted_def apply_pair_def names_list_def property_set_def
        property_table_def assert_is_type_def)
  have d: "\<not> pair_accepted (''kernel_type'', PyStr ''linear'')"
    by (simp add: pair_accepted_def apply_pair_def names_list_def property_set_def
        property_table_def assert_is_type_def)
  have s: "stored_value ''gamma'' (PyFloat 0.5) = PyFloat 0.5"
    by (simp add: stored_value_def property_table_def)
  from batch_failure_keeps_prefix[OF a b c d] a b c d s show ?thesis by simp
qed

section \<open>Properties of the permutation importance functions\<close>

subsection \<open>The request\<close>

lemma exact_type_check:
  "obj_class frame \<noteq> H2OFrame_class \<Longrightarrow>
   permutation_varimp pandas_available trace model frame use_pandas metric =
     (Inl (ValueError ''Frame is not H2OFrame''), trace)"
  by (simp add: permutation_varimp_def)

lemma not_instance_not_exact:
  "\<not> isinstance frame H2OFrame_class \<Longrightarrow> obj_class frame \<noteq> H2OFrame_class"
  by (cases "obj_class frame") (auto simp: isinstance_def)

text \<open>
  Claim C6. For every frame argument that is not an \<open>H2OFrame\<close>, the function raises
  the value error, and the calls made to the collaborators are those made before:
  nothing is submitted.
\<close>

theorem non_frame_rejected_before_submission:
  assumes "\<not> isinstance frame H2OFrame_class"
  shows "permutation_varimp pandas_available trace model frame use_pandas metric =
           (Inl (ValueError ''Frame is not H2OFrame''), trace)"
  using assms by (simp add: exact_type_check not_instance_not_exact)

theorem non_frame_rejected_before_submission_witness:
  "\<not> isinstance \<lparr>obj_class = OtherClass ''DataFrame'', obj_name = ''df''\<rparr> H2OFrame_class \<and>
   permutation_varimp True []
     \<lparr>obj_class = OtherClass ''H2OSupportVectorMachineEstimator'', obj_name = ''svm''\<rparr>
     \<lparr>obj_class = OtherClass ''DataFrame'', obj_name = ''df''\<rparr> True ''mse'' =
     (Inl (ValueError ''Frame is not H2OFrame''), [])"
proof -
  have a: "\<not> isinstance \<lparr>obj_class = OtherClass ''DataFrame'', obj_name = ''df''\<rparr> H2OFrame_class"
    by (simp add: isinstance_def)
  from non_frame_rejected_before_submission[OF a] a show ?thesis by simp
qed

text \<open>
  Claim C7. Every call whose frame passes the check of the function (its type is
  \<open>H2OFrame\<close>) returns a result and makes exactly one submission to the expression
  evaluator, whatever \<open>use_pandas\<close> is and whether pandas is there or not; a second
  call with the same model, frame and metric submits again.
\<close>

theorem one_submission_per_call:
  assumes "obj_class frame = H2OFrame_class"
  shows "(\<exists>r. fst (permutation_varimp pa trace model frame use_pandas metric) = Inr r) \<and>
         submissions (snd (permutation_varimp pa trace model frame use_pandas metric)) =
           submissions trace + 1 \<and>
         submissions (snd (permutation_varimp pa'
             (snd (permutation_varimp pa trace model frame use_pandas metric))
             model frame use_pandas' metric)) = submissions trace + 2"
  using assms by (simp add: permutation_varimp_def submissions_def Let_def)

theorem one_submission_per_call_witness:
  "obj_class \<lparr>obj_class = H2OFrame_class, obj_name = ''train''\<rparr> = H2OFrame_class \<and>
   submissions (snd (permutation_varimp True []
     \<lparr>obj_class = OtherClass ''H2OSupportVectorMachineEstimator'', obj_name = ''svm''\<rparr>
     \<lparr>obj_class = H2OFrame_class, obj_name = ''train''\<rparr> True ''mse'')) = 1"
proof -
  have a: "obj_class \<lparr>obj_class = H2OFrame_class, obj_name = ''train''\<rparr> = H2OFrame_class"
    by simp
  from one_submission_per_call[OF a, of True "[]" _ True "''mse''" True True] a
  show ?thesis by (simp add: submissions_def)
qed

text \<open>
  Claim C10. The frame is tested by the identity of its type, not by subtyping: for
  every object whose type is a proper subclass of \<open>H2OFrame\<close>, which is an instance
  of \<open>H2OFrame\<close>, the call raises the value error and submits nothing.
\<close>

theorem proper_subclass_rejected:
  assumes "issubclass (obj_class frame) H2OFrame_class"
      and "obj_class frame \<noteq> H2OFrame_class"
  shows "isinstance frame H2OFrame_class \<and>
         permutation_varimp pandas_available trace model frame use_pandas metric =
           (Inl (ValueError ''Frame is not H2OFrame''), trace)"
  using assms by (simp add: exact_type_check isinstance_def)

theorem proper_subclass_rejected_witness:
  "issubclass (obj_class \<lparr>obj_class = Subclass ''CachedFrame'' H2OFrame_class,
       obj_name = ''train''\<rparr>) H2OFrame_class \<and>
   obj_class \<lparr>obj_class = Subclass ''CachedFrame'' H2OFrame_class, obj_name = ''train''\<rparr>
     \<noteq> H2OFrame_class \<and>
   permutation_varimp True []
     \<lparr>obj_class = OtherClass ''H2OSupportVectorMachineEstimator'', obj_name = ''svm''\<rparr>
     \<lparr>obj_class = Subclass ''CachedFrame'' H2OFrame_class, obj_name = ''train''\<rparr> True ''mse'' =
     (Inl (ValueError ''Frame is not H2OFrame''), [])"
proof -
  have a: "issubclass (obj_class \<lparr>obj_class = Subclass ''CachedFrame'' H2OFrame_class,
       obj_name = ''train''\<rparr>) H2OFrame_class" by simp
  have b: "obj_class \<lparr>obj_class = Subclass ''CachedFrame'' H2OFrame_class, obj_name = ''train''\<rparr>
     \<noteq> H2OFrame_class" by simp
  from proper_subclass_rejected[OF a b] a b show ?thesis by simp
qed

subsection \<open>The chart\<close>

text \<open>Looking every column name up in a row gives the row back.\<close>

lemma lookup_all:
  assumes "distinct cs" and "length cs = length r"
  shows "map (\<lambda>c. the (map_of (zip cs r) c)) cs = r"
proof (rule nth_equalityI)
  show "length (map (\<lambda>c. the (map_of (zip cs r) c)) cs) = length r" using assms by simp
next
  fix i assume "i < length (map (\<lambda>c. the (map_of (zip cs r) c)) cs)"
  then have i: "i < length r" using assms by simp
  from map_of_zip_nth[OF assms(2) assms(1) i]
  show "map (\<lambda>c. the (map_of (zip cs r) c)) cs ! i = r ! i" using i assms by simp
qed

lemma importance_values_lookup:
  assumes "2 < length (rows df)" and "length (columns df) = length (rows df ! 2)"
      and "''importance'' \<notin> set fs" and "set fs \<subseteq> set (columns df)"
  shows "importance_values df fs =
           Inr (map (\<lambda>c. the (map_of (zip (columns df) (rows df ! 2)) c)) fs)"
  using assms(3,4)
proof (induction fs)
  case Nil
  then show ?case by simp
next
  case (Cons c fs)
  then have c: "c \<noteq> ''importance''" and cin: "c \<in> set (columns df)" by auto
  from map_of_zip_is_Some[OF assms(2), of c] cin
  obtain y where y: "map_of (zip (columns df) (rows df ! 2)) c = Some y" by blast
  from Cons have ih: "importance_values df fs =
           Inr (map (\<lambda>c. the (map_of (zip (columns df) (rows df ! 2)) c)) fs)" by simp
  show ?case using c y ih assms(1) by (simp add: loc_def series_get_def)
qed

text \<open>On a table of the stated shape the first loop collects the row at index 2 without its label.\<close>

lemma importance_values_ok:
  assumes "importance_table_ok df"
  shows "importance_values df (columns df) = Inr (tl (rows df ! 2))"
proof -
  from assms obtain fs where cs: "columns df = ''importance'' # fs"
    by (cases "columns df") (auto simp: importance_table_ok_def)
  from assms have d: "distinct (columns df)" and r: "2 < length (rows df)"
    and l: "list_all (\<lambda>r. length r = length (columns df)) (rows df)"
    by (auto simp: importance_table_ok_def)
  from l r have len: "length (columns df) = length (rows df ! 2)"
    by (simp add: list_all_length)
  have nf: "''importance'' \<notin> set fs" using d cs by simp
  have sub: "set fs \<subseteq> set (columns df)" using cs by auto
  let ?f = "\<lambda>c. the (map_of (zip (columns df) (rows df ! 2)) c)"
  have "importance_values df (columns df) = importance_values df fs" using cs by simp
  also have "\<dots> = Inr (map ?f fs)" by (rule importance_values_lookup[OF r len nf sub])
  also have "map ?f fs = tl (map ?f (columns df))" using cs by simp
  also have "map ?f (columns df) = rows df ! 2" by (rule lookup_all[OF d len])
  finally show ?thesis .
qed

lemma positions_take: "k \<le> n \<Longrightarrow> take k (rev (map int [0..<n])) = map int (rev [n - k..<n])"
proof -
  assume "k \<le> n"
  have "take k (rev (map int [0..<n])) = map int (take k (rev [0..<n]))"
    by (simp add: rev_map take_map)
  also have "take k (rev [0..<n]) = rev (drop (n - k) [0..<n])"
    by (simp add: take_rev)
  also have "drop (n - k) [0..<n] = [n - k..<n]" by simp
  finally show ?thesis .
qed

lemma twelve_features_ok: "importance_table_ok twelve_features"
  by (simp add: importance_table_ok_def twelve_features_def)

text \<open>
  What the chart shows for a table of the stated shape: the bars are the first ten
  feature columns (all of them when there are fewer than ten), in the order of the
  table's columns, with the values of the row at index 2 and the names of those
  columns as tick labels; the first is drawn at the highest position and each next
  one at the position below. The function returns normally when the table has a
  feature column.
\<close>

lemma bars_in_table_order:
  assumes ok: "importance_table_ok df"
  shows "bars_of (fst (plot_permutation_var_imp True df algo_name metric server)) =
           zip (map int (rev [length (columns df) - 1 - min (length (columns df) - 1) 10..<
                              length (columns df) - 1]))
               (take 10 (tl (rows df ! 2))) \<and>
         tick_labels_of (fst (plot_permutation_var_imp True df algo_name metric server)) =
           zip (map int (rev [length (columns df) - 1 - min (length (columns df) - 1) 10..<
                              length (columns df) - 1]))
               (take 10 (tl (columns df))) \<and>
         snd (plot_permutation_var_imp True df algo_name metric server) =
           (if length (columns df) = 1 then Some (ValueError ''min() arg is an empty sequence'')
            else None)"
proof -
  let ?vals = "tl (rows df ! 2)"
  let ?n = "length (columns df) - 1"
  let ?k = "min ?n 10"
  let ?ps = "map int (rev [?n - ?k..<?n])"
  let ?res = "plot_permutation_var_imp True df algo_name metric server"
  from ok have r: "2 < length (rows df)"
    and l: "list_all (\<lambda>r. length r = length (columns df)) (rows df)"
    and ne: "columns df \<noteq> []"
    by (auto simp: importance_table_ok_def)
  from l r have len: "length ?vals = ?n" by (simp add: list_all_length)
  have pos: "take ?k (rev (map int [0..<?n])) = ?ps" by (rule positions_take) simp
  have tk: "take ?k ?vals = take 10 ?vals" using len by (simp add: min_def)
  have tc: "take ?k (tl (columns df)) = take 10 (tl (columns df))" by (simp add: min_def)
  have b: "bars_of (fst ?res) = zip ?ps (take 10 ?vals)"
    using pos tk len
    by (simp add: plot_permutation_var_imp_def importance_values_ok[OF ok] bars_of_def Let_def)
  have t: "tick_labels_of (fst ?res) = zip ?ps (take 10 (tl (columns df)))"
    using pos tc len
    by (simp add: plot_permutation_var_imp_def importance_values_ok[OF ok] tick_labels_of_def
        Let_def drop_Suc)
  have e: "snd ?res =
           (if length (columns df) = 1 then Some (ValueError ''min() arg is an empty sequence'')
            else None)"
  proof -
    have "length (columns df) \<le> Suc 0 \<Longrightarrow> length (columns df) = Suc 0"
      using ne by (cases "columns df") auto
    then show ?thesis using len
      by (auto simp: plot_permutation_var_imp_def importance_values_ok[OF ok] Let_def min_def)
  qed
  from b t e show ?thesis by blast
qed

text \<open>
  Claim C1. On the importance table of the spec's example the function draws the
  first ten of the twelve feature columns in the order of the table, without sorting:
  the bar at the top, at position 11, has the value 5 of the first column, and the
  bar of the largest value drawn, 9, is two positions below. The largest bar is not
  at the top, which the source announces in its comment ("flip the order so largest
  bar appears at top").
\<close>

theorem largest_bar_not_at_top:
  "importance_table_ok twelve_features \<and>
   bars_of (fst (plot_permutation_var_imp True twelve_features ''psvm'' ''mse'' False)) =
     [(11, Num 5), (10, Num 3), (9, Num 9), (8, Num 8), (7, Num 7), (6, Num 6), (5, Num 4),
      (4, Num 2), (3, Num 1), (2, Num 1)] \<and>
   top_bar (bars_of (fst (plot_permutation_var_imp True twelve_features ''psvm'' ''mse'' False))) =
     Some (11, Num 5) \<and>
   \<not> largest_at_top
       (bars_of (fst (plot_permutation_var_imp True twelve_features ''psvm'' ''mse'' False)))"
proof -
  have v: "importance_values twelve_features (columns twelve_features) =
      Inr [Num 5, Num 3, Num 9, Num 8, Num 7, Num 6, Num 4, Num 2, Num 1, Num 1, Num 1, Num 1]"
    by (simp add: importance_values_ok[OF twelve_features_ok]) (simp add: twelve_features_def)
  have u: "[0..<12] = [0, 1, 2, 3, 4, 5, 6, 7, 8, 9, 10, 11]" by (simp add: upt_rec)
  have b: "bars_of (fst (plot_permutation_var_imp True twelve_features ''psvm'' ''mse'' False)) =
     [(11, Num 5), (10, Num 3), (9, Num 9), (8, Num 8), (7, Num 7), (6, Num 6), (5, Num 4),
      (4, Num 2), (3, Num 1), (2, Num 1)]"
    by (simp add: plot_permutation_var_imp_def v u bars_of_def Let_def)
  show ?thesis by (simp add: b twelve_features_ok largest_at_top_def)
qed

text \<open>
  Claim C9. For every importance table of the stated shape, when no backend is
  available the function returns normally and has made no call to the backend.
\<close>

theorem no_backend_no_drawing:
  assumes "importance_table_ok df"
  shows "plot_permutation_var_imp False df algo_name metric server = ([], None)"
  using assms by (simp add: plot_permutation_var_imp_def importance_values_ok)

theorem no_backend_no_drawing_witness:
  "importance_table_ok twelve_features \<and>
   plot_permutation_var_imp False twelve_features ''psvm'' ''mse'' True = ([], None)"
  using no_backend_no_drawing[OF twelve_features_ok] twelve_features_ok by simp

end
